theory Spec2Isabelle
  imports Main "HOL-Library.Word" "HOL-Library.Sublist"
begin

unbundle bit_operations_syntax

section \<open>statsd: process bootstrap and event-loop host (cmds/statsd/src/main.cpp)\<close>

text \<open>
  \<^verbatim>\<open>main\<close> is a straight line of calls into collaborators that live outside the file
  (the looper, the binder runtime, the service manager, \<^verbatim>\<open>StatsService\<close>,
  \<^verbatim>\<open>StatsSocketListener\<close>, the logger), two early exits and one loop without an exit.
  The model makes every call an event of a trace, in program order, and takes what the
  collaborators answer from an environment, so that a run is a function of the answers.
\<close>

subsection \<open>Data\<close>

text \<open>
  C++ \<^verbatim>\<open>int\<close> and \<^verbatim>\<open>status_t\<close> are 32-bit two's complement: a \<open>32 word\<close>, read as a
  signed number with \<open>sint\<close>. An object handed around behind an \<^verbatim>\<open>sp<>\<close> is known to
  \<^verbatim>\<open>main\<close> by its identity only.
\<close>

type_synonym int32 = "32 word"
type_synonym obj = nat

text \<open>
  One constructor for each call that \<^verbatim>\<open>main\<close> makes, with the receiver (where the call
  has one) and the arguments as the source passes them. The three logging macros carry
  their message.
\<close>

datatype event =
    Looper_prepare int32
  | ProcessState_self
  | setThreadPoolMaxThreadCount obj nat
  | startThreadPool obj
  | giveThreadPoolName obj
  | IPCThreadState_self
  | disableBackgroundScheduling obj bool
  | new_StatsService obj
  | defaultServiceManager
  | addService obj string obj
  | ALOGE string
  | sayHiToStatsCompanion obj
  | Startup obj
  | new_StatsSocketListener obj
  | ALOGI string
  | startListener obj int32
  | pollAll obj int32
  | ALOGW string

text \<open>
  What the collaborators answer. Only two answers are inspected by \<^verbatim>\<open>main\<close>: the status
  of \<^verbatim>\<open>addService\<close> and the result of \<^verbatim>\<open>startListener\<close>. The result of the \<open>i\<close>-th
  \<^verbatim>\<open>pollAll\<close> is there to be discarded, as the source discards it. Every call is taken to
  return, and every factory to return a live object: the file holds no code for the
  other case.
\<close>

record env =
  Looper_prepare_ret :: obj
  ProcessState_self_ret :: obj
  IPCThreadState_self_ret :: obj
  new_StatsService_ret :: obj
  defaultServiceManager_ret :: obj
  addService_ret :: int32
  new_StatsSocketListener_ret :: obj
  startListener_ret :: int32
  pollAll_ret :: "nat \<Rightarrow> int32"

text \<open>
  How a run stands when it is looked at: \<^verbatim>\<open>main\<close> has returned a status, \<^verbatim>\<open>exit\<close> has
  been called with a status, or control is inside the pump loop.
\<close>

datatype outcome = Returned int32 | Exited int32 | Pumping

fun exit_status :: "outcome \<Rightarrow> int32 option" where
  "exit_status (Returned r) = Some r"
| "exit_status (Exited r) = Some r"
| "exit_status Pumping = None"

text \<open>
  The process boundary: \<^verbatim>\<open>exit\<close> and a return from \<^verbatim>\<open>main\<close> hand the parent the
  low eight bits of the status (\<^verbatim>\<open>status & 0377\<close>), an unsigned number.
\<close>

definition observed_exit_status :: "int32 \<Rightarrow> nat" where
  "observed_exit_status status = unat (status AND 0xFF)"

subsection \<open>The program\<close>

text \<open>Lines 82 to 84, the statements after the loop.\<close>

definition after_loop :: "event list \<times> outcome" where
  "after_loop = ([ALOGW ''statsd escaped from its loop.''], Returned 1)"

text \<open>
  Lines 79 to 81. The fuel counts the returns of \<^verbatim>\<open>pollAll\<close> that have been observed so
  far; when it is used up the run is still inside the loop. The loop condition is the
  literal \<^verbatim>\<open>true\<close> and the body has no \<^verbatim>\<open>break\<close>.
\<close>

primrec pump :: "env \<Rightarrow> obj \<Rightarrow> nat \<Rightarrow> nat \<Rightarrow> event list \<times> outcome" where
  "pump e looper i 0 = ([], Pumping)"
| "pump e looper i (Suc fuel) =
     (if True then
        (let discarded = pollAll_ret e i;
             rest = pump e looper (Suc i) fuel
         in (pollAll looper (- 1) # fst rest, snd rest))
      else after_loop)"

text \<open>Lines 48 to 85. Neither \<^verbatim>\<open>argc\<close> nor \<^verbatim>\<open>argv\<close> is named in the source.\<close>

definition main :: "int32 \<Rightarrow> string list \<Rightarrow> env \<Rightarrow> nat \<Rightarrow> event list \<times> outcome" where
  "main argc argv e fuel =
     (let looper = Looper_prepare_ret e;
          ps = ProcessState_self_ret e;
          ipc = IPCThreadState_self_ret e;
          service = new_StatsService_ret e;
          sm = defaultServiceManager_ret e;
          t1 = [Looper_prepare 0,
                ProcessState_self,
                setThreadPoolMaxThreadCount ps 9,
                startThreadPool ps,
                giveThreadPoolName ps,
                IPCThreadState_self,
                disableBackgroundScheduling ipc True,
                new_StatsService looper,
                defaultServiceManager,
                addService sm ''stats'' service]
      in if addService_ret e \<noteq> 0 then (t1 @ [ALOGE ''Failed to add service''], Returned (- 1))
         else
           let socketListener = new_StatsSocketListener_ret e;
               t2 = t1 @ [sayHiToStatsCompanion service,
                          Startup service,
                          new_StatsSocketListener service,
                          ALOGI ''using statsd socket'',
                          startListener socketListener 600]
           in if startListener_ret e \<noteq> 0 then (t2, Exited 1)
              else
                let run = pump e looper 0 fuel
                in (t2 @ fst run, snd run))"

subsection \<open>Reading a trace\<close>

text \<open>
  The events in the life of the service object: a registration, a greeting to the
  companion, a startup hook, whatever their receivers and arguments.
\<close>

fun is_lifecycle :: "event \<Rightarrow> bool" where
  "is_lifecycle (addService sm name s) = True"
| "is_lifecycle (sayHiToStatsCompanion s) = True"
| "is_lifecycle (Startup s) = True"
| "is_lifecycle x = False"

text \<open>
  The events that configure the binder runtime, and the registrations, whatever their
  receivers and arguments.
\<close>

fun is_runtime_or_registration :: "event \<Rightarrow> bool" where
  "is_runtime_or_registration (setThreadPoolMaxThreadCount p n) = True"
| "is_runtime_or_registration (startThreadPool p) = True"
| "is_runtime_or_registration (giveThreadPoolName p) = True"
| "is_runtime_or_registration (disableBackgroundScheduling i b) = True"
| "is_runtime_or_registration (addService sm name s) = True"
| "is_runtime_or_registration x = False"


text \<open>The pool caps and the listener backlogs that a trace holds, and which events are polls.\<close>

fun pool_caps :: "event list \<Rightarrow> nat list" where
  "pool_caps [] = []"
| "pool_caps (setThreadPoolMaxThreadCount p n # t) = n # pool_caps t"
| "pool_caps (x # t) = pool_caps t"

fun backlogs :: "event list \<Rightarrow> int32 list" where
  "backlogs [] = []"
| "backlogs (startListener l b # t) = b # backlogs t"
| "backlogs (x # t) = backlogs t"

fun is_poll :: "event \<Rightarrow> bool" where
  "is_poll (pollAll l t) = True"
| "is_poll x = False"

text \<open>The runs used as concrete inputs.\<close>

definition happy_env :: env where
  "happy_env = \<lparr>Looper_prepare_ret = 1, ProcessState_self_ret = 2, IPCThreadState_self_ret = 3,
     new_StatsService_ret = 4, defaultServiceManager_ret = 5, addService_ret = 0,
     new_StatsSocketListener_ret = 6, startListener_ret = 0, pollAll_ret = (\<lambda>i. 0)\<rparr>"

definition refused_env :: env where
  "refused_env = happy_env\<lparr>addService_ret := - 1\<rparr>"

definition bind_failure_env :: env where
  "bind_failure_env = happy_env\<lparr>startListener_ret := - 1\<rparr>"


subsection \<open>The three kinds of run\<close>

lemma pump_polls: "pump e looper i fuel = (replicate fuel (pollAll looper (- 1)), Pumping)"
  by (induction fuel arbitrary: i) simp_all

lemma main_refused:
  "addService_ret e \<noteq> 0 \<Longrightarrow>
   main argc argv e fuel =
     ([Looper_prepare 0, ProcessState_self,
       setThreadPoolMaxThreadCount (ProcessState_self_ret e) 9,
       startThreadPool (ProcessState_self_ret e),
       giveThreadPoolName (ProcessState_self_ret e),
       IPCThreadState_self,
       disableBackgroundScheduling (IPCThreadState_self_ret e) True,
       new_StatsService (Looper_prepare_ret e),
       defaultServiceManager,
       addService (defaultServiceManager_ret e) ''stats'' (new_StatsService_ret e),
       ALOGE ''Failed to add service''], Returned (- 1))"
  by (simp add: main_def Let_def)

lemma main_bind_failure:
  "addService_ret e = 0 \<Longrightarrow> startListener_ret e \<noteq> 0 \<Longrightarrow>
   main argc argv e fuel =
     ([Looper_prepare 0, ProcessState_self,
       setThreadPoolMaxThreadCount (ProcessState_self_ret e) 9,
       startThreadPool (ProcessState_self_ret e),
       giveThreadPoolName (ProcessState_self_ret e),
       IPCThreadState_self,
       disableBackgroundScheduling (IPCThreadState_self_ret e) True,
       new_StatsService (Looper_prepare_ret e),
       defaultServiceManager,
       addService (defaultServiceManager_ret e) ''stats'' (new_StatsService_ret e),
       sayHiToStatsCompanion (new_StatsService_ret e),
       Startup (new_StatsService_ret e),
       new_StatsSocketListener (new_StatsService_ret e),
       ALOGI ''using statsd socket'',
       startListener (new_StatsSocketListener_ret e) 600], Exited 1)"
  by (simp add: main_def Let_def)

lemma main_pumping:
  "addService_ret e = 0 \<Longrightarrow> startListener_ret e = 0 \<Longrightarrow>
   main argc argv e fuel =
     ([Looper_prepare 0, ProcessState_self,
       setThreadPoolMaxThreadCount (ProcessState_self_ret e) 9,
       startThreadPool (ProcessState_self_ret e),
       giveThreadPoolName (ProcessState_self_ret e),
       IPCThreadState_self,
       disableBackgroundScheduling (IPCThreadState_self_ret e) True,
       new_StatsService (Looper_prepare_ret e),
       defaultServiceManager,
       addService (defaultServiceManager_ret e) ''stats'' (new_StatsService_ret e),
       sayHiToStatsCompanion (new_StatsService_ret e),
       Startup (new_StatsService_ret e),
       new_StatsSocketListener (new_StatsService_ret e),
       ALOGI ''using statsd socket'',
       startListener (new_StatsSocketListener_ret e) 600]
      @ replicate fuel (pollAll (Looper_prepare_ret e) (- 1)), Pumping)"
  by (simp add: main_def Let_def pump_polls)

lemma main_cases:
  obtains (refused) "addService_ret e \<noteq> 0"
  | (bind_failure) "addService_ret e = 0" "startListener_ret e \<noteq> 0"
  | (pumping) "addService_ret e = 0" "startListener_ret e = 0"
  by blast

lemma sublist_service: "sublist ''service'' ''Failed to add service''"
  by (simp add: sublist_code)


lemma pump_never_leaves: "snd (pump e looper i fuel) = Pumping"
  by (simp add: pump_polls)

lemma after_loop_unreachable:
  "ALOGW msg \<notin> set (fst (main argc argv e fuel)) \<and> snd (main argc argv e fuel) \<noteq> Returned 1"
proof (cases e rule: main_cases)
  case refused
  then show ?thesis by (simp add: main_refused)
next
  case bind_failure
  then show ?thesis by (simp add: main_bind_failure)
next
  case pumping
  then show ?thesis by (simp add: main_pumping)
qed

text \<open>
  Line 50 keeps what \<^verbatim>\<open>Looper::prepare\<close> returns and does not inspect it: the outcome of a
  run is the same whatever object that is.
\<close>

lemma outcome_ignores_looper:
  "snd (main argc argv (e\<lparr>Looper_prepare_ret := l\<rparr>) fuel) = snd (main argc argv e fuel)"
  by (simp add: main_def Let_def pump_polls)

lemma backlogs_polls: "backlogs (replicate n (pollAll l t)) = []"
  by (induction n) simp_all

lemma pool_caps_polls: "pool_caps (replicate n (pollAll l t)) = []"
  by (induction n) simp_all

lemma lifecycle_polls: "filter is_lifecycle (replicate n (pollAll l t)) = []"
  by (induction n) simp_all

lemma runtime_or_registration_polls:
  "filter is_runtime_or_registration (replicate n (pollAll l t)) = []"
  by (induction n) simp_all


lemma observed_exit_status_bound: "observed_exit_status st < 256"
proof -
  have "st AND 0xFF = take_bit 8 st"
    by (simp add: take_bit_eq_mask mask_eq_exp_minus_1)
  then have "unat (st AND 0xFF) = take_bit 8 (unat st)"
    by (simp add: unsigned_take_bit_eq)
  moreover have "take_bit 8 (unat st) < 2 ^ 8"
    by (rule take_bit_nat_less_exp)
  ultimately show ?thesis
    by (simp add: observed_exit_status_def)
qed

subsection \<open>The claims\<close>

text \<open>
  C1. In every run in which \<^verbatim>\<open>addService\<close> for the name \<^verbatim>\<open>"stats"\<close> answers a
  non-zero status, an error is logged whose message mentions "service", \<^verbatim>\<open>main\<close> returns
  the status \<open>-1\<close>, and the trace holds neither the greeting, nor the startup hook, nor the
  construction of the socket listener, nor its start.
\<close>

theorem registration_refused_exits:
  assumes "addService_ret e \<noteq> 0"
  shows "(\<exists>msg. ALOGE msg \<in> set (fst (main argc argv e fuel)) \<and> sublist ''service'' msg)
       \<and> (\<exists>r. snd (main argc argv e fuel) = Returned r \<and> sint r = - 1)
       \<and> (\<forall>s. sayHiToStatsCompanion s \<notin> set (fst (main argc argv e fuel)))
       \<and> (\<forall>s. Startup s \<notin> set (fst (main argc argv e fuel)))
       \<and> (\<forall>s. new_StatsSocketListener s \<notin> set (fst (main argc argv e fuel)))
       \<and> (\<forall>l b. startListener l b \<notin> set (fst (main argc argv e fuel)))"
proof -
  have "ALOGE ''Failed to add service'' \<in> set (fst (main argc argv e fuel))"
    using assms by (simp add: main_refused)
  then have "\<exists>msg. ALOGE msg \<in> set (fst (main argc argv e fuel)) \<and> sublist ''service'' msg"
    using sublist_service by blast
  moreover have "\<exists>r. snd (main argc argv e fuel) = Returned r \<and> sint r = - 1"
    using assms by (simp add: main_refused)
  ultimately show ?thesis
    using assms by (simp add: main_refused)
qed

theorem registration_refused_exits_witness:
  "addService_ret refused_env \<noteq> 0
   \<and> (\<exists>msg. ALOGE msg \<in> set (fst (main 0 [] refused_env 0)) \<and> sublist ''service'' msg)
   \<and> (\<exists>r. snd (main 0 [] refused_env 0) = Returned r \<and> sint r = - 1)
   \<and> (\<forall>s. sayHiToStatsCompanion s \<notin> set (fst (main 0 [] refused_env 0)))
   \<and> (\<forall>s. Startup s \<notin> set (fst (main 0 [] refused_env 0)))
   \<and> (\<forall>s. new_StatsSocketListener s \<notin> set (fst (main 0 [] refused_env 0)))
   \<and> (\<forall>l b. startListener l b \<notin> set (fst (main 0 [] refused_env 0)))"
proof -
  have h: "addService_ret refused_env \<noteq> 0"
    by (simp add: refused_env_def happy_env_def)
  show ?thesis
    using h registration_refused_exits [OF h, of 0 "[]" 0] by blast
qed

text \<open>
  C2. After a successful registration: when \<^verbatim>\<open>startListener\<close> answers zero, the run is
  inside the pump loop whatever the number of polls observed, and the looper is polled as
  soon as one is; when it answers non-zero, \<^verbatim>\<open>exit(1)\<close> is called, no poll has been made,
  and the trace up to the exit holds the registration of the service and its startup hook.
\<close>

theorem listener_start_decides:
  assumes "addService_ret e = 0"
  shows "(startListener_ret e = 0 \<longrightarrow>
            snd (main argc argv e fuel) = Pumping
          \<and> pollAll (Looper_prepare_ret e) (- 1) \<in> set (fst (main argc argv e (Suc fuel))))
       \<and> (startListener_ret e \<noteq> 0 \<longrightarrow>
            snd (main argc argv e fuel) = Exited 1
          \<and> (\<forall>l t. pollAll l t \<notin> set (fst (main argc argv e fuel)))
          \<and> addService (defaultServiceManager_ret e) ''stats'' (new_StatsService_ret e)
              \<in> set (fst (main argc argv e fuel))
          \<and> Startup (new_StatsService_ret e) \<in> set (fst (main argc argv e fuel)))"
  using assms by (simp add: main_bind_failure main_pumping)

theorem listener_start_decides_witness:
  "addService_ret happy_env = 0 \<and> startListener_ret happy_env = 0
   \<and> snd (main 0 [] happy_env 2) = Pumping
   \<and> pollAll (Looper_prepare_ret happy_env) (- 1) \<in> set (fst (main 0 [] happy_env (Suc 2)))
   \<and> addService_ret bind_failure_env = 0 \<and> startListener_ret bind_failure_env \<noteq> 0
   \<and> snd (main 0 [] bind_failure_env 2) = Exited 1
   \<and> (\<forall>l t. pollAll l t \<notin> set (fst (main 0 [] bind_failure_env 2)))
   \<and> addService (defaultServiceManager_ret bind_failure_env) ''stats''
        (new_StatsService_ret bind_failure_env) \<in> set (fst (main 0 [] bind_failure_env 2))
   \<and> Startup (new_StatsService_ret bind_failure_env) \<in> set (fst (main 0 [] bind_failure_env 2))"
proof -
  have h1: "addService_ret happy_env = 0" and h2: "startListener_ret happy_env = 0"
    by (simp_all add: happy_env_def)
  have b1: "addService_ret bind_failure_env = 0" and b2: "startListener_ret bind_failure_env \<noteq> 0"
    by (simp_all add: bind_failure_env_def happy_env_def)
  show ?thesis
    using h1 h2 b1 b2
      listener_start_decides [OF h1, of 0 "[]" 2]
      listener_start_decides [OF b1, of 0 "[]" 2]
    by blast
qed




text \<open>
  C4. In every run in which the registration succeeds, the events in the life of the
  service object are, in this order and with nothing of their kind before, between or
  after: the registration under \<^verbatim>\<open>"stats"\<close>, the greeting to the companion, the startup
  hook. The greeting is made after \<^verbatim>\<open>addService\<close> and before \<^verbatim>\<open>Startup\<close>, and at no other
  place.
\<close>

theorem greeting_after_registration_before_startup:
  assumes "addService_ret e = 0"
  shows "filter is_lifecycle (fst (main argc argv e fuel))
         = [addService (defaultServiceManager_ret e) ''stats'' (new_StatsService_ret e),
            sayHiToStatsCompanion (new_StatsService_ret e),
            Startup (new_StatsService_ret e)]"
proof (cases "startListener_ret e = 0")
  case True
  with assms show ?thesis by (simp add: main_pumping lifecycle_polls)
next
  case False
  with assms show ?thesis by (simp add: main_bind_failure)
qed

theorem greeting_after_registration_before_startup_witness:
  "addService_ret happy_env = 0
   \<and> filter is_lifecycle (fst (main 0 [] happy_env 1))
       = [addService (defaultServiceManager_ret happy_env) ''stats'' (new_StatsService_ret happy_env),
          sayHiToStatsCompanion (new_StatsService_ret happy_env),
          Startup (new_StatsService_ret happy_env)]"
proof -
  have h: "addService_ret happy_env = 0"
    by (simp add: happy_env_def)
  show ?thesis
    using h greeting_after_registration_before_startup [OF h, of 0 "[]" 1] by blast
qed

text \<open>
  C5. Every run begins with the same ten calls, the registration of the service being
  the tenth; among them the cap of the binder thread pool is set to \<open>9\<close>, the pool is
  started, then named, and background scheduling is disabled on the object that
  \<^verbatim>\<open>IPCThreadState::self()\<close> returned. In the whole trace the calls that configure the
  runtime and the registrations are these five, in this order and no others: no cap
  other than \<open>9\<close> is set, nothing re-enables background scheduling, and no registration
  comes before the configuration is complete.
\<close>

theorem runtime_configured_before_registration:
  "take 10 (fst (main argc argv e fuel))
     = [Looper_prepare 0,
        ProcessState_self,
        setThreadPoolMaxThreadCount (ProcessState_self_ret e) 9,
        startThreadPool (ProcessState_self_ret e),
        giveThreadPoolName (ProcessState_self_ret e),
        IPCThreadState_self,
        disableBackgroundScheduling (IPCThreadState_self_ret e) True,
        new_StatsService (Looper_prepare_ret e),
        defaultServiceManager,
        addService (defaultServiceManager_ret e) ''stats'' (new_StatsService_ret e)]
   \<and> filter is_runtime_or_registration (fst (main argc argv e fuel))
     = [setThreadPoolMaxThreadCount (ProcessState_self_ret e) 9,
        startThreadPool (ProcessState_self_ret e),
        giveThreadPoolName (ProcessState_self_ret e),
        disableBackgroundScheduling (IPCThreadState_self_ret e) True,
        addService (defaultServiceManager_ret e) ''stats'' (new_StatsService_ret e)]
   \<and> pool_caps (fst (main argc argv e fuel)) = [9]"
proof (cases e rule: main_cases)
  case refused
  then show ?thesis by (simp add: main_refused)
next
  case bind_failure
  then show ?thesis by (simp add: main_bind_failure)
next
  case pumping
  then show ?thesis
    by (simp add: main_pumping pool_caps_polls runtime_or_registration_polls)
qed

text \<open>
  C6. Every run that gets to the start of the listener (the registration has succeeded)
  calls \<^verbatim>\<open>startListener\<close> once, on the listener it has constructed, with the backlog
  \<open>600\<close>.
\<close>

theorem listener_backlog_600:
  assumes "addService_ret e = 0"
  shows "backlogs (fst (main argc argv e fuel)) = [600]
       \<and> startListener (new_StatsSocketListener_ret e) 600 \<in> set (fst (main argc argv e fuel))"
proof (cases "startListener_ret e = 0")
  case True
  with assms show ?thesis by (simp add: main_pumping backlogs_polls)
next
  case False
  with assms show ?thesis by (simp add: main_bind_failure)
qed

theorem listener_backlog_600_witness:
  "addService_ret bind_failure_env = 0
   \<and> backlogs (fst (main 0 [] bind_failure_env 0)) = [600]
   \<and> startListener (new_StatsSocketListener_ret bind_failure_env) 600
        \<in> set (fst (main 0 [] bind_failure_env 0))"
proof -
  have h: "addService_ret bind_failure_env = 0"
    by (simp add: bind_failure_env_def happy_env_def)
  show ?thesis
    using h listener_backlog_600 [OF h, of 0 "[]" 0] by blast
qed

text \<open>
  C7. A run is a function of what the collaborators answer, and of nothing else: for any
  two argument counts and argument vectors, the same answers give the same trace and the
  same outcome.
\<close>

theorem argument_vector_ignored:
  "main argc argv e fuel = main argc' argv' e fuel"
  by (simp add: main_def)

text \<open>
  C8. No run ends with the status \<open>0\<close>, as \<^verbatim>\<open>main\<close> gives it or as the parent reads it.
  In a trace, whatever follows the first poll is a poll; and when neither the
  registration nor the start of the listener fails, the run is inside the pump loop
  however long it is observed, each further return of \<^verbatim>\<open>pollAll\<close> adding a poll to the
  trace and nothing else.
\<close>

theorem never_exits_zero_pump_terminal:
  "exit_status (snd (main argc argv e fuel)) \<noteq> Some 0
   \<and> map_option observed_exit_status (exit_status (snd (main argc argv e fuel))) \<noteq> Some 0
   \<and> filter (\<lambda>x. \<not> is_poll x) (dropWhile (\<lambda>x. \<not> is_poll x) (fst (main argc argv e fuel))) = []
   \<and> (addService_ret e = 0 \<and> startListener_ret e = 0 \<longrightarrow>
        snd (main argc argv e fuel) = Pumping
      \<and> fst (main argc argv e (fuel + k))
          = fst (main argc argv e fuel) @ replicate k (pollAll (Looper_prepare_ret e) (- 1)))"
proof (cases e rule: main_cases)
  case refused
  then show ?thesis by (simp add: main_refused observed_exit_status_def)
next
  case bind_failure
  then show ?thesis by (simp add: main_bind_failure observed_exit_status_def)
next
  case pumping
  then show ?thesis by (simp add: main_pumping replicate_add)
qed

theorem never_exits_zero_pump_terminal_witness:
  "addService_ret happy_env = 0 \<and> startListener_ret happy_env = 0
   \<and> snd (main 0 [] happy_env 3) = Pumping
   \<and> fst (main 0 [] happy_env (3 + 4))
       = fst (main 0 [] happy_env 3) @ replicate 4 (pollAll (Looper_prepare_ret happy_env) (- 1))"
proof -
  have h: "addService_ret happy_env = 0 \<and> startListener_ret happy_env = 0"
    by (simp add: happy_env_def)
  show ?thesis
    using h never_exits_zero_pump_terminal [of 0 "[]" happy_env 3 4] by blast
qed

text \<open>
  C10. On a failed registration \<^verbatim>\<open>main\<close> returns the \<^verbatim>\<open>int\<close> \<open>-1\<close>; the parent reads
  \<open>255\<close>, which is \<open>-1\<close> modulo \<open>256\<close>; no status is ever read as \<open>-1\<close>; and the status
  differs from the \<open>1\<close> of a failed listener start, before and after the truncation.
\<close>

theorem registration_failure_observed_255:
  assumes "addService_ret e \<noteq> 0"
  shows "\<exists>r. snd (main argc argv e fuel) = Returned r
           \<and> sint r = - 1
           \<and> observed_exit_status r = 255
           \<and> sint r mod 256 = 255
           \<and> (\<forall>st. observed_exit_status st < 256 \<and> int (observed_exit_status st) \<noteq> - 1)
           \<and> r \<noteq> 1
           \<and> observed_exit_status r \<noteq> observed_exit_status 1"
proof -
  have never: "\<forall>st. observed_exit_status st < 256 \<and> int (observed_exit_status st) \<noteq> - 1"
    by (simp add: observed_exit_status_bound)
  have "observed_exit_status (- 1) = 255" and "observed_exit_status 1 = 1"
    by (simp_all add: observed_exit_status_def)
  with never assms show ?thesis
    by (simp add: main_refused)
qed

theorem registration_failure_observed_255_witness:
  "addService_ret refused_env \<noteq> 0
   \<and> (\<exists>r. snd (main 0 [] refused_env 0) = Returned r
           \<and> sint r = - 1
           \<and> observed_exit_status r = 255
           \<and> sint r mod 256 = 255
           \<and> (\<forall>st. observed_exit_status st < 256 \<and> int (observed_exit_status st) \<noteq> - 1)
           \<and> r \<noteq> 1
           \<and> observed_exit_status r \<noteq> observed_exit_status 1)"
proof -
  have h: "addService_ret refused_env \<noteq> 0"
    by (simp add: refused_env_def happy_env_def)
  show ?thesis
    using h registration_failure_observed_255 [OF h, of 0 "[]" 0] by blast
qed

end
